theory Spec2Isabelle
  imports Complex_Main
begin

section \<open>Data model of the country map chart\<close>

text \<open>
  The chart is the single function \<open>CountryMap(element, props)\<close> of \<open>CountryMap.js\<close>.
  An absent (\<open>undefined\<close>) JavaScript value is \<open>None\<close>; a string is falsy exactly
  when it is empty. Numbers are modelled as reals, which covers every finite number: the
  code compares them, takes \<open>Math.min\<close> and \<open>Math.max\<close> of them, and computes
  \<open>width - width * scale\<close>. The module-level objects \<open>maps\<close> and \<open>zoomStates\<close> and the
  object \<open>colorMap\<close> are maps from their own property keys; what a plain object inherits
  from \<open>Object.prototype\<close> is left out.
\<close>

record feature_properties =
  ISO :: "string option"
  NAME_1 :: "string option"
  NAME_2 :: "string option"

record feature =
  properties :: "feature_properties option"

record datum =
  country_id :: string
  metric :: real

text \<open>\<open>filterState\<close>, both as the prop that is read and as the part of an emitted data mask.\<close>

record filter_state =
  fs_value :: "string list option"
  selectedValues :: "string list option"

datatype filter_val = Single string | Multi "string list"

record filter_clause =
  col :: string
  op :: string
  val :: filter_val
  formattedVal :: "string option"

record extra_form_data =
  filters :: "filter_clause list"

record data_mask =
  extraFormData :: extra_form_data
  mask_filterState :: filter_state

record cross_filter =
  dataMask :: data_mask
  isCurrentValueSelected :: bool

record drill_by =
  drill_filters :: "filter_clause list"
  groupbyFieldName :: string

record context_payload =
  drillToDetail :: "filter_clause list"
  crossFilter :: "cross_filter option"
  drillBy :: drill_by

record pointer_event =
  shiftKey :: bool
  clientX :: real
  clientY :: real

text \<open>A function value passed as a prop; \<open>typeof f === 'function'\<close> is \<open>is_function\<close>.\<close>

datatype callback = Callback

definition is_function :: "callback option \<Rightarrow> bool" where
  "is_function cb = (case cb of None \<Rightarrow> False | Some _ \<Rightarrow> True)"

datatype slice_id = SliceStr string | SliceNum real

record props =
  data :: "datum list"
  width :: real
  height :: real
  country :: string
  entity :: string
  linearColorScheme :: "string option"
  numberFormat :: "string option"
  colorScheme :: "string option"
  sliceId :: "slice_id option"
  filterState :: filter_state
  emitCrossFilters :: bool
  onContextMenu :: "callback option"
  setDataMask :: "callback option"

text \<open>\<open>feature?.properties?.ISO\<close>\<close>

definition ISO_of :: "feature \<Rightarrow> string option" where
  "ISO_of f = (case properties f of None \<Rightarrow> None | Some ps \<Rightarrow> ISO ps)"

section \<open>The JavaScript \<open>Set\<close> used by the click handler\<close>

text \<open>
  A \<open>Set\<close> of strings keeps its members in insertion order without repetition;
  \<open>Array.from\<close> lists them in that order. It is modelled by that list.
\<close>

definition set_has :: "string list \<Rightarrow> string \<Rightarrow> bool" where
  "set_has s x = (x \<in> set s)"

definition set_add :: "string list \<Rightarrow> string \<Rightarrow> string list" where
  "set_add s x = (if x \<in> set s then s else s @ [x])"

definition set_delete :: "string list \<Rightarrow> string \<Rightarrow> string list" where
  "set_delete s x = removeAll x s"

definition new_Set :: "string list \<Rightarrow> string list" where
  "new_Set xs = foldl set_add [] xs"

section \<open>Selection highlighting\<close>

text \<open>
  The styles of one \<open>path.region\<close> element that the code sets. A \<open>stroke\<close> of \<open>None\<close>
  is the \<open>null\<close> passed to \<open>style\<close>, which removes the inline stroke; \<open>fill_opacity\<close>
  is \<open>None\<close> until the highlighting pass has set it.
\<close>

record region =
  region_datum :: feature
  fill :: string
  fill_opacity :: "real option"
  stroke :: "string option"
  stroke_width :: "string option"

definition includes_iso :: "string list \<Rightarrow> string option \<Rightarrow> bool" where
  "includes_iso xs isoCode = (case isoCode of None \<Rightarrow> False | Some r \<Rightarrow> r \<in> set xs)"

definition highlight_region :: "string list \<Rightarrow> region \<Rightarrow> region" where
  "highlight_region selected rg =
     (let isoCode = ISO_of (region_datum rg) in
      rg\<lparr>fill_opacity :=
           Some (if length selected = 0 \<or> includes_iso selected isoCode then 1 else 0.3),
         stroke := (if includes_iso selected isoCode then Some ''#222'' else None),
         stroke_width :=
           Some (if includes_iso selected isoCode then ''1.5px'' else ''0.5px'')\<rparr>)"

definition highlightSelectedRegion :: "props \<Rightarrow> region list \<Rightarrow> region list" where
  "highlightSelectedRegion p rs =
     (let selected =
        (case selectedValues (filterState p) of
           None \<Rightarrow> []
         | Some xs \<Rightarrow> if length xs \<noteq> 0 then xs else [])
      in map (highlight_region selected) rs)"

section \<open>Click and context-menu handlers\<close>

definition getCrossFilterDataMask :: "props \<Rightarrow> feature \<Rightarrow> cross_filter option" where
  "getCrossFilterDataMask p source =
     (let selected = (case selectedValues (filterState p) of None \<Rightarrow> [] | Some xs \<Rightarrow> xs) in
      case ISO_of source of
        None \<Rightarrow> None
      | Some isoCode \<Rightarrow>
          if isoCode = [] then None
          else
            (let isSelected = (isoCode \<in> set selected);
                 vals = (if isSelected then [] else [isoCode])
             in Some \<lparr>dataMask =
                   \<lparr>extraFormData =
                      \<lparr>filters =
                         (if length vals \<noteq> 0
                          then [\<lparr>col = entity p, op = ''IN'', val = Multi vals,
                                 formattedVal = None\<rparr>]
                          else [])\<rparr>,
                    mask_filterState =
                      \<lparr>fs_value = (if length vals \<noteq> 0 then Some vals else None),
                       selectedValues = (if length vals \<noteq> 0 then Some vals else None)\<rparr>\<rparr>,
                 isCurrentValueSelected = isSelected\<rparr>))"

text \<open>
  \<open>handleClick\<close> returns the argument of the \<open>setDataMask\<close> call it makes (\<open>None\<close>
  when it returns without calling) and the region styles after its highlighting pass.
  \<open>d3.event\<close> is the optional pointer event.
\<close>

definition handleClick ::
  "props \<Rightarrow> pointer_event option \<Rightarrow> feature \<Rightarrow> region list \<Rightarrow> data_mask option \<times> region list"
where
  "handleClick p d3_event ft rs =
     (if \<not> emitCrossFilters p \<or> \<not> is_function (setDataMask p) then (None, rs)
      else case ISO_of ft of
        None \<Rightarrow> (None, rs)
      | Some isoCode \<Rightarrow>
          if isoCode = [] then (None, rs)
          else
            (let baseline = (case selectedValues (filterState p) of None \<Rightarrow> [] | Some xs \<Rightarrow> xs);
                 currently = new_Set baseline;
                 shift = (case d3_event of None \<Rightarrow> False | Some e \<Rightarrow> shiftKey e);
                 newSelection =
                   (if shift then
                      (if set_has currently isoCode then set_delete currently isoCode
                       else set_add currently isoCode)
                    else if length currently = 1 \<and> set_has currently isoCode then []
                    else set_add [] isoCode)
             in (Some \<lparr>extraFormData =
                        \<lparr>filters =
                           (if length newSelection \<noteq> 0
                            then [\<lparr>col = entity p, op = ''IN'', val = Multi newSelection,
                                   formattedVal = None\<rparr>]
                            else [])\<rparr>,
                      mask_filterState =
                        \<lparr>fs_value = (if length newSelection \<noteq> 0 then Some newSelection else None),
                         selectedValues =
                           (if length newSelection \<noteq> 0 then Some newSelection else None)\<rparr>\<rparr>,
                 highlightSelectedRegion p rs)))"

section \<open>Collaborators outside the file\<close>

text \<open>
  The imports of \<open>CountryMap.js\<close> are parameters of the model: the number formatter
  and the two colour scales of \<open>@superset-ui/core\<close>, \<open>d3.rgb(c).darker().toString()\<close>,
  the tables \<open>countries\<close> (code to URL) and \<open>countryOptions\<close> (pairs of code and display
  name) of \<open>./countries\<close>, and the conversion of a number to a string that template
  literals and property keys apply.
\<close>

record externals =
  getNumberFormatter :: "string option \<Rightarrow> real \<Rightarrow> string"
  createLinearScale :: "string option \<Rightarrow> (real \<times> real) option \<Rightarrow> real \<Rightarrow> string"
  getScale :: "string option \<Rightarrow> string \<Rightarrow> slice_id option \<Rightarrow> string"
  darker :: "string \<Rightarrow> string"
  countries :: "string \<Rightarrow> string option"
  countryOptions :: "(string \<times> string) list"
  number_to_string :: "real \<Rightarrow> string"

section \<open>Colours\<close>

text \<open>\<open>d3Extent\<close> of the metrics: \<open>[min, max]\<close>, or \<open>[undefined, undefined]\<close> (\<open>None\<close>) for no rows.\<close>

definition d3Extent :: "real list \<Rightarrow> (real \<times> real) option" where
  "d3Extent xs = (case xs of [] \<Rightarrow> None | x # ys \<Rightarrow> Some (foldl min x ys, foldl max x ys))"

text \<open>
  \<open>colorMap\<close> is a plain object filled by \<open>data.forEach\<close>: a later row of the same
  \<open>country_id\<close> overwrites an earlier one. Only its own properties are modelled.
  \<open>row_color\<close> is the colour that the loop body computes for one row.
\<close>

definition row_color :: "externals \<Rightarrow> props \<Rightarrow> datum \<Rightarrow> string" where
  "row_color ex p d =
     (case colorScheme p of
        None \<Rightarrow> createLinearScale ex (linearColorScheme p)
                  (d3Extent (map metric (data p))) (metric d)
      | Some cs \<Rightarrow>
          if cs = [] then createLinearScale ex (linearColorScheme p)
                           (d3Extent (map metric (data p))) (metric d)
          else getScale ex (colorScheme p) (country_id d) (sliceId p))"

definition colorMap :: "externals \<Rightarrow> props \<Rightarrow> string \<Rightarrow> string option" where
  "colorMap ex p = foldl (\<lambda>m d. m(country_id d \<mapsto> row_color ex p d)) Map.empty (data p)"

text \<open>The property key that a possibly absent string is converted to.\<close>

definition property_key :: "string option \<Rightarrow> string" where
  "property_key k = (case k of None \<Rightarrow> ''undefined'' | Some s \<Rightarrow> s)"

definition colorFn :: "externals \<Rightarrow> props \<Rightarrow> feature \<Rightarrow> string" where
  "colorFn ex p ft =
     (case properties ft of
        None \<Rightarrow> ''none''
      | Some ps \<Rightarrow>
          (case colorMap ex p (property_key (ISO ps)) of
             None \<Rightarrow> ''#FFFEFE''
           | Some c \<Rightarrow> if c = [] then ''#FFFEFE'' else c))"

section \<open>Context menu\<close>

datatype js_error = TypeError

record context_result =
  defaultPrevented :: bool
  menu_call :: "(real \<times> real \<times> context_payload) option"

text \<open>
  \<open>handleContextMenu\<close>: whether \<open>preventDefault\<close> was called on the event, and the
  arguments of the \<open>onContextMenu\<close> call if one is made. Reading \<open>clientX\<close> of an
  absent event throws.
\<close>

definition handleContextMenu ::
  "props \<Rightarrow> pointer_event option \<Rightarrow> feature \<Rightarrow> js_error + context_result"
where
  "handleContextMenu p pointerEvent ft =
     (let prevented =
        (if is_function (onContextMenu p)
         then (case pointerEvent of None \<Rightarrow> False | Some _ \<Rightarrow> True) else False)
      in case ISO_of ft of
        None \<Rightarrow> Inr \<lparr>defaultPrevented = prevented, menu_call = None\<rparr>
      | Some isoCode \<Rightarrow>
          if isoCode = [] \<or> \<not> is_function (onContextMenu p)
          then Inr \<lparr>defaultPrevented = prevented, menu_call = None\<rparr>
          else
            (let drillVal = isoCode;
                 drillToDetailFilters =
                   [\<lparr>col = entity p, op = ''=='', val = Single drillVal,
                     formattedVal = Some drillVal\<rparr>];
                 drillByFilters =
                   [\<lparr>col = entity p, op = ''=='', val = Single drillVal,
                     formattedVal = None\<rparr>]
             in case pointerEvent of
                  None \<Rightarrow> Inl TypeError
                | Some e \<Rightarrow>
                    Inr \<lparr>defaultPrevented = prevented,
                         menu_call = Some (clientX e, clientY e,
                           \<lparr>drillToDetail = drillToDetailFilters,
                            crossFilter = getCrossFilterDataMask p ft,
                            drillBy = \<lparr>drill_filters = drillByFilters,
                                       groupbyFieldName = ''entity''\<rparr>\<rparr>)\<rparr>))"

section \<open>The svg tree of one invocation\<close>

record zoom_state =
  scale :: real
  translate :: "real \<times> real"

text \<open>\<open>Transform tx ty s\<close> is the attribute \<open>translate(tx, ty) scale(s)\<close> of the group \<open>g\<close>.\<close>

datatype transform = Transform real real real

record chart_dom =
  g_transform :: "transform option"
  regions :: "region list"
  bigText :: string
  resultText :: string

section \<open>Hover\<close>

definition selectAndDisplayNameOfRegion :: "feature \<Rightarrow> string" where
  "selectAndDisplayNameOfRegion ft =
     (case properties ft of
        None \<Rightarrow> []
      | Some ps \<Rightarrow>
          (case NAME_2 ps of
             Some n2 \<Rightarrow>
               if n2 \<noteq> [] then n2
               else (case NAME_1 ps of None \<Rightarrow> [] | Some n1 \<Rightarrow> n1)
           | None \<Rightarrow> (case NAME_1 ps of None \<Rightarrow> [] | Some n1 \<Rightarrow> n1)))"

definition updateMetrics :: "externals \<Rightarrow> props \<Rightarrow> datum list \<Rightarrow> string" where
  "updateMetrics ex p regionRows =
     (case regionRows of
        [] \<Rightarrow> []
      | r # _ \<Rightarrow> getNumberFormatter ex (numberFormat p) (metric r))"

text \<open>The handlers run on the element \<open>this\<close>, the \<open>i\<close>-th region; its datum is \<open>d\<close>.\<close>

definition mouseenter :: "externals \<Rightarrow> props \<Rightarrow> nat \<Rightarrow> chart_dom \<Rightarrow> chart_dom" where
  "mouseenter ex p i tree =
     (if i < length (regions tree) then
        (let d = region_datum (regions tree ! i);
             c0 = colorFn ex p d;
             c = (if c0 \<noteq> [] \<and> c0 \<noteq> ''none'' then darker ex c0 else c0);
             result = filter (\<lambda>r. Some (country_id r) = ISO_of d) (data p)
         in tree\<lparr>regions := (regions tree)[i := (regions tree ! i)\<lparr>fill := c\<rparr>],
                bigText := selectAndDisplayNameOfRegion d,
                resultText := updateMetrics ex p result\<rparr>)
      else tree)"

definition mouseout :: "externals \<Rightarrow> props \<Rightarrow> nat \<Rightarrow> chart_dom \<Rightarrow> chart_dom" where
  "mouseout ex p i tree =
     (if i < length (regions tree) then
        tree\<lparr>regions :=
               (regions tree)[i := (regions tree ! i)
                  \<lparr>fill := colorFn ex p (region_datum (regions tree ! i))\<rparr>],
            bigText := [],
            resultText := []\<rparr>
      else tree)"

section \<open>Zoom\<close>

definition chartKey :: "externals \<Rightarrow> props \<Rightarrow> string" where
  "chartKey ex p =
     (let fallback = country p @ ''-'' @ number_to_string ex (width p) @ ''-''
                       @ number_to_string ex (height p)
      in case sliceId p of
           None \<Rightarrow> fallback
         | Some (SliceStr s) \<Rightarrow> if s = [] then fallback else s
         | Some (SliceNum n) \<Rightarrow> if n = 0 then fallback else number_to_string ex n)"

text \<open>
  The listener of the \<open>zoom\<close> event: \<open>d3.event\<close> carries \<open>scale\<close> and the raw
  \<open>translate\<close>. It sets the transform of \<open>g\<close> and writes \<open>zoomStates[chartKey]\<close>.
\<close>

definition on_zoom ::
  "externals \<Rightarrow> props \<Rightarrow> zoom_state \<Rightarrow> (string \<Rightarrow> zoom_state option) \<times> chart_dom
     \<Rightarrow> (string \<Rightarrow> zoom_state option) \<times> chart_dom"
where
  "on_zoom ex p d3_event st =
     (let tx = fst (translate d3_event);
          ty = snd (translate d3_event);
          scaledW = width p * scale d3_event;
          scaledH = height p * scale d3_event;
          minX = min 0 (width p - scaledW);
          maxX = 0;
          minY = min 0 (height p - scaledH);
          maxY = 0;
          tx' = max (min tx maxX) minX;
          ty' = max (min ty maxY) minY
      in ((fst st)(chartKey ex p \<mapsto> \<lparr>scale = scale d3_event, translate = (tx', ty')\<rparr>),
          (snd st)\<lparr>g_transform := Some (Transform tx' ty' (scale d3_event))\<rparr>))"

section \<open>Drawing and loading\<close>

record geometry =
  features :: "feature list"

text \<open>
  \<open>drawMap\<close> joins the features to \<open>path.region\<close> elements by position, sets the
  fill of every one of them with \<open>colorFn\<close> and runs the highlighting pass. The
  projection and the path data are outside the model.
\<close>

definition drawMap :: "externals \<Rightarrow> props \<Rightarrow> geometry \<Rightarrow> chart_dom \<Rightarrow> chart_dom" where
  "drawMap ex p mapData tree =
     tree\<lparr>regions :=
       highlightSelectedRegion p
         (map (\<lambda>ft. \<lparr>region_datum = ft, fill = colorFn ex p ft, fill_opacity = None,
                     stroke = None, stroke_width = None\<rparr>)
            (features mapData))\<rparr>"

text \<open>
  The process: the module-level objects \<open>maps\<close> and \<open>zoomStates\<close>, what every
  container element shows, the svg tree and props of every invocation of \<open>CountryMap\<close>
  so far (an invocation is identified by its position), the \<open>d3.json\<close> requests in
  flight, every request issued so far, and every call made to the host.
\<close>

datatype content = Empty | Svg nat | Html string

record invocation =
  inst_element :: nat
  inst_props :: props
  inst_dom :: chart_dom

record request =
  req_url :: "string option"
  req_country :: string
  req_element :: nat
  req_instance :: nat

datatype host_call =
    PreventDefault
  | OnContextMenu real real context_payload
  | SetDataMask data_mask

record system =
  maps :: "string \<Rightarrow> geometry option"
  zoomStates :: "string \<Rightarrow> zoom_state option"
  containers :: "nat \<Rightarrow> content"
  instances :: "invocation list"
  pending :: "request list"
  fetches :: "request list"
  calls :: "host_call list"

definition initial_system :: system where
  "initial_system =
     \<lparr>maps = Map.empty, zoomStates = Map.empty, containers = (\<lambda>_. Empty),
      instances = [], pending = [], fetches = [], calls = []\<rparr>"

text \<open>
  The synchronous part of \<open>CountryMap(element, props)\<close>: the container is emptied and
  gets a new svg, a stored zoom state is restored, and then either the cached geometry is
  drawn or a request is issued.
\<close>

definition CountryMap :: "externals \<Rightarrow> nat \<Rightarrow> props \<Rightarrow> system \<Rightarrow> system" where
  "CountryMap ex element p s =
     (let me = length (instances s);
          tree0 = \<lparr>g_transform = None, regions = [], bigText = [], resultText = []\<rparr>;
          tree1 =
            (case zoomStates s (chartKey ex p) of
               None \<Rightarrow> tree0
             | Some z \<Rightarrow>
                 tree0\<lparr>g_transform :=
                   Some (Transform (fst (translate z)) (snd (translate z)) (scale z))\<rparr>);
          s1 = s\<lparr>containers := (containers s)(element := Svg me)\<rparr>
      in case maps s (country p) of
           Some m \<Rightarrow>
             s1\<lparr>instances := instances s @
                   [\<lparr>inst_element = element, inst_props = p,
                     inst_dom = drawMap ex p m tree1\<rparr>]\<rparr>
         | None \<Rightarrow>
             (let rq = \<lparr>req_url = countries ex (country p), req_country = country p,
                        req_element = element, req_instance = me\<rparr>
              in s1\<lparr>instances := instances s @
                      [\<lparr>inst_element = element, inst_props = p, inst_dom = tree1\<rparr>],
                    pending := pending s @ [rq],
                    fetches := fetches s @ [rq]\<rparr>))"

definition countryName :: "externals \<Rightarrow> string \<Rightarrow> string" where
  "countryName ex c =
     (case find (\<lambda>x. fst x = c) (countryOptions ex) of
        None \<Rightarrow> c
      | Some x \<Rightarrow> if snd x = [] then c else snd x)"

datatype fetch_result = Failed | Loaded geometry

text \<open>
  The callback of \<open>d3.json\<close>, run when request \<open>rq\<close> completes. It draws into the svg
  of the invocation that issued the request, whether or not the container still shows it.
\<close>

definition json_callback :: "externals \<Rightarrow> request \<Rightarrow> fetch_result \<Rightarrow> system \<Rightarrow> system" where
  \<open>json_callback ex rq res s =
     (case res of
        Failed \<Rightarrow>
          s\<lparr>containers := (containers s)(req_element rq :=
               Html (''<div class="alert alert-danger">Could not load map data for ''
                       @ countryName ex (req_country rq) @ ''</div>''))\<rparr>
      | Loaded mapData \<Rightarrow>
          (let i = req_instance rq in
           s\<lparr>maps := (maps s)(req_country rq \<mapsto> mapData),
             instances :=
               (if i < length (instances s)
                then (instances s)[i := (instances s ! i)
                       \<lparr>inst_dom := drawMap ex (inst_props (instances s ! i)) mapData
                                      (inst_dom (instances s ! i))\<rparr>]
                else instances s)\<rparr>))\<close>

section \<open>Events\<close>

text \<open>
  What can happen to the process: the host renders a chart into an element, a request in
  flight completes, or the user acts on region \<open>j\<close> (or zooms the svg) of invocation \<open>i\<close>.
  Only the svg that its container shows receives user events.
\<close>

datatype event =
    Render nat props
  | FetchDone nat fetch_result
  | Click nat nat pointer_event
  | ContextMenu nat nat pointer_event
  | MouseEnter nat nat
  | MouseOut nat nat
  | Zoom nat zoom_state

definition displayed :: "system \<Rightarrow> nat \<Rightarrow> bool" where
  "displayed s i =
     (if i < length (instances s)
      then containers s (inst_element (instances s ! i)) = Svg i else False)"

definition update_dom :: "nat \<Rightarrow> chart_dom \<Rightarrow> system \<Rightarrow> system" where
  "update_dom i tree s = s\<lparr>instances := (instances s)[i := (instances s ! i)\<lparr>inst_dom := tree\<rparr>]\<rparr>"

fun step :: "externals \<Rightarrow> event \<Rightarrow> system \<Rightarrow> system" where
  "step ex (Render element p) s = CountryMap ex element p s"
| "step ex (FetchDone k res) s =
     (if k < length (pending s)
      then json_callback ex (pending s ! k) res
             (s\<lparr>pending := take k (pending s) @ drop (Suc k) (pending s)\<rparr>)
      else s)"
| "step ex (Click i j e) s =
     (if displayed s i \<and> j < length (regions (inst_dom (instances s ! i))) then
        (let inst = instances s ! i;
             r = handleClick (inst_props inst) (Some e)
                   (region_datum (regions (inst_dom inst) ! j)) (regions (inst_dom inst))
         in (update_dom i ((inst_dom inst)\<lparr>regions := snd r\<rparr>) s)
              \<lparr>calls := calls s @ (case fst r of None \<Rightarrow> [] | Some m \<Rightarrow> [SetDataMask m])\<rparr>)
      else s)"
| "step ex (ContextMenu i j e) s =
     (if displayed s i \<and> j < length (regions (inst_dom (instances s ! i))) then
        (let inst = instances s ! i in
         case handleContextMenu (inst_props inst) (Some e)
                (region_datum (regions (inst_dom inst) ! j)) of
           Inl _ \<Rightarrow> s
         | Inr r \<Rightarrow>
             s\<lparr>calls := calls s
                  @ (if defaultPrevented r then [PreventDefault] else [])
                  @ (case menu_call r of
                       None \<Rightarrow> []
                     | Some (x, y, payload) \<Rightarrow> [OnContextMenu x y payload])\<rparr>)
      else s)"
| "step ex (MouseEnter i j) s =
     (if displayed s i
      then update_dom i (mouseenter ex (inst_props (instances s ! i)) j
                           (inst_dom (instances s ! i))) s
      else s)"
| "step ex (MouseOut i j) s =
     (if displayed s i
      then update_dom i (mouseout ex (inst_props (instances s ! i)) j
                           (inst_dom (instances s ! i))) s
      else s)"
| "step ex (Zoom i e) s =
     (if displayed s i then
        (let r = on_zoom ex (inst_props (instances s ! i)) e
                   (zoomStates s, inst_dom (instances s ! i))
         in (update_dom i (snd r) s)\<lparr>zoomStates := fst r\<rparr>)
      else s)"

definition run :: "externals \<Rightarrow> event list \<Rightarrow> system \<Rightarrow> system" where
  "run ex evs s = foldl (\<lambda>t e. step ex e t) s evs"

section \<open>Example inputs\<close>

definition example_props :: props where
  "example_props =
     \<lparr>data = [\<lparr>country_id = ''FR-A'', metric = 1\<rparr>, \<lparr>country_id = ''FR-B'', metric = 5\<rparr>,
              \<lparr>country_id = ''FR-A'', metric = 10\<rparr>],
      width = 800, height = 400, country = ''france'', entity = ''region'',
      linearColorScheme = Some ''blues'', numberFormat = None, colorScheme = None,
      sliceId = Some (SliceStr ''slice-7''),
      filterState = \<lparr>fs_value = None, selectedValues = Some [''FR-A'', ''FR-B'']\<rparr>,
      emitCrossFilters = True, onContextMenu = Some Callback, setDataMask = Some Callback\<rparr>"

definition sole_selection_props :: props where
  "sole_selection_props =
     example_props\<lparr>filterState := \<lparr>fs_value = None, selectedValues = Some [''FR-A'']\<rparr>\<rparr>"

definition example_externals :: externals where
  "example_externals =
     \<lparr>getNumberFormatter = (\<lambda>_ x. if x = 1 then ''1'' else if x = 5 then ''5'' else ''10''),
      createLinearScale = (\<lambda>_ _ x. if x < 5 then ''#eeeeff'' else ''#0000ff''),
      getScale = (\<lambda>_ _ _. ''#1f77b4''),
      darker = (\<lambda>c. ''darker '' @ c),
      countries = (\<lambda>c. if c = ''france'' then Some ''/maps/france.geojson'' else None),
      countryOptions = [(''france'', ''France''), (''uk'', ''UK'')],
      number_to_string = (\<lambda>x. if x = 800 then ''800'' else ''400'')\<rparr>"

definition region_A :: feature where
  "region_A = \<lparr>properties = Some \<lparr>ISO = Some ''FR-A'', NAME_1 = Some ''Alsace'', NAME_2 = None\<rparr>\<rparr>"

definition region_C :: feature where
  "region_C = \<lparr>properties = Some \<lparr>ISO = Some ''FR-C'', NAME_1 = Some ''Corse'', NAME_2 = None\<rparr>\<rparr>"

definition no_code :: feature where
  "no_code = \<lparr>properties = Some \<lparr>ISO = None, NAME_1 = Some ''Unnamed'', NAME_2 = None\<rparr>\<rparr>"

definition no_properties :: feature where
  "no_properties = \<lparr>properties = None\<rparr>"

definition example_geometry :: geometry where
  "example_geometry = \<lparr>features = [region_A, region_C, no_code, no_properties]\<rparr>"

definition empty_tree :: chart_dom where
  "empty_tree = \<lparr>g_transform = None, regions = [], bigText = [], resultText = []\<rparr>"

definition loaded_system :: system where
  "loaded_system =
     run example_externals [Render 0 example_props, FetchDone 0 (Loaded example_geometry)]
       initial_system"

definition failing_system :: system where
  "failing_system =
     step example_externals (Render 0 (example_props\<lparr>country := ''uk''\<rparr>)) initial_system"

section \<open>Properties of the set model\<close>

lemma set_new_Set_aux: "set (foldl set_add acc xs) = set acc \<union> set xs"
  by (induction xs arbitrary: acc) (auto simp: set_add_def)

lemma distinct_new_Set_aux: "distinct acc \<Longrightarrow> distinct (foldl set_add acc xs)"
  by (induction xs arbitrary: acc) (auto simp: set_add_def)

lemma set_new_Set: "set (new_Set xs) = set xs"
  by (simp add: new_Set_def set_new_Set_aux)

lemma distinct_new_Set: "distinct (new_Set xs)"
  by (simp add: new_Set_def distinct_new_Set_aux)

lemma distinct_length_one: "distinct s \<Longrightarrow> (length s = 1 \<and> x \<in> set s) = (set s = {x})"
proof
  assume d: "distinct s" and h: "length s = 1 \<and> x \<in> set s"
  then obtain y where "s = [y]" by (cases s) auto
  with h show "set s = {x}" by auto
next
  assume d: "distinct s" and h: "set s = {x}"
  then have "card (set s) = 1" by simp
  with d have "length s = 1" by (simp add: distinct_card)
  with h show "length s = 1 \<and> x \<in> set s" by simp
qed

section \<open>Click toggle\<close>

text \<open>
  Claim C1. With cross-filtering enabled and a \<open>setDataMask\<close> callback supplied, a click on
  a feature whose region code \<open>r\<close> is a non-empty string emits a data mask for a selection
  \<open>sel\<close> without repetitions: on a shift-click \<open>sel\<close> is the current selection \<open>S\<close> with
  \<open>r\<close> removed if it was a member and added if it was not, all other members kept; on a
  plain click \<open>sel\<close> is empty when \<open>S = {r}\<close> and is exactly \<open>{r}\<close> otherwise. An empty
  selection is emitted as no filter clause and \<open>null\<close> values.
\<close>

theorem handleClick_toggle:
  assumes en: "emitCrossFilters p" and cb: "is_function (setDataMask p)"
    and isoc: "ISO_of ft = Some r" and ne: "r \<noteq> []"
  shows "\<exists>sel.
      fst (handleClick p ev ft rs) =
        Some \<lparr>extraFormData =
                \<lparr>filters = (if sel = [] then []
                             else [\<lparr>col = entity p, op = ''IN'', val = Multi sel,
                                    formattedVal = None\<rparr>])\<rparr>,
              mask_filterState =
                \<lparr>fs_value = (if sel = [] then None else Some sel),
                 selectedValues = (if sel = [] then None else Some sel)\<rparr>\<rparr>
    \<and> distinct sel
    \<and> set sel =
        (let S = (case selectedValues (filterState p) of None \<Rightarrow> {} | Some xs \<Rightarrow> set xs) in
         if (case ev of None \<Rightarrow> False | Some e \<Rightarrow> shiftKey e)
         then (if r \<in> S then S - {r} else insert r S)
         else (if S = {r} then {} else {r}))"
proof -
  define baseline where "baseline = (case selectedValues (filterState p) of None \<Rightarrow> [] | Some xs \<Rightarrow> xs)"
  define shift where "shift = (case ev of None \<Rightarrow> False | Some e \<Rightarrow> shiftKey e)"
  define sel where "sel =
     (if shift then
        (if set_has (new_Set baseline) r then set_delete (new_Set baseline) r
         else set_add (new_Set baseline) r)
      else if length (new_Set baseline) = 1 \<and> set_has (new_Set baseline) r then []
      else set_add [] r)"
  have S: "(case selectedValues (filterState p) of None \<Rightarrow> {} | Some xs \<Rightarrow> set xs) = set baseline"
    by (simp add: baseline_def split: option.splits)
  have one: "(length (new_Set baseline) = 1 \<and> r \<in> set (new_Set baseline)) = (set baseline = {r})"
    using distinct_length_one [OF distinct_new_Set, of baseline r] by (simp add: set_new_Set)
  have emitted: "fst (handleClick p ev ft rs) =
        Some \<lparr>extraFormData =
                \<lparr>filters = (if sel = [] then []
                             else [\<lparr>col = entity p, op = ''IN'', val = Multi sel,
                                    formattedVal = None\<rparr>])\<rparr>,
              mask_filterState =
                \<lparr>fs_value = (if sel = [] then None else Some sel),
                 selectedValues = (if sel = [] then None else Some sel)\<rparr>\<rparr>"
    using en cb isoc ne
    by (simp add: handleClick_def Let_def sel_def shift_def baseline_def)
  have dist: "distinct sel"
    by (simp add: sel_def set_delete_def set_add_def distinct_new_Set distinct_removeAll)
  have mem: "set sel = (if shift then (if r \<in> set baseline then set baseline - {r} else insert r (set baseline))
         else (if set baseline = {r} then {} else {r}))"
    using one by (auto simp: sel_def set_has_def set_delete_def set_add_def set_new_Set)
  show ?thesis
    using emitted dist mem unfolding S shift_def Let_def by blast
qed

theorem handleClick_toggle_witness:
  "emitCrossFilters example_props \<and> is_function (setDataMask example_props)
   \<and> ISO_of region_A = Some ''FR-A'' \<and> ''FR-A'' \<noteq> []
   \<and> fst (handleClick example_props (Some \<lparr>shiftKey = True, clientX = 10, clientY = 20\<rparr>) region_A [])
        = Some \<lparr>extraFormData =
                  \<lparr>filters = [\<lparr>col = ''region'', op = ''IN'', val = Multi [''FR-B''],
                                formattedVal = None\<rparr>]\<rparr>,
                mask_filterState =
                  \<lparr>fs_value = Some [''FR-B''], selectedValues = Some [''FR-B'']\<rparr>\<rparr>
   \<and> fst (handleClick example_props (Some \<lparr>shiftKey = False, clientX = 10, clientY = 20\<rparr>) region_A [])
        = Some \<lparr>extraFormData =
                  \<lparr>filters = [\<lparr>col = ''region'', op = ''IN'', val = Multi [''FR-A''],
                                formattedVal = None\<rparr>]\<rparr>,
                mask_filterState =
                  \<lparr>fs_value = Some [''FR-A''], selectedValues = Some [''FR-A'']\<rparr>\<rparr>"
proof -
  have h1: "emitCrossFilters example_props" by (simp add: example_props_def)
  have h2: "is_function (setDataMask example_props)" by (simp add: example_props_def is_function_def)
  have h3: "ISO_of region_A = Some ''FR-A''" by (simp add: region_A_def ISO_of_def)
  have h4: "''FR-A'' \<noteq> []" by simp
  note t = handleClick_toggle [OF h1 h2 h3 h4]
  show ?thesis
    using t [of "Some \<lparr>shiftKey = True, clientX = 10, clientY = 20\<rparr>" "[]"] h1 h2 h3
    by (simp add: handleClick_def example_props_def region_A_def Let_def new_Set_def
        set_add_def set_has_def set_delete_def)
qed

lemma getCrossFilterDataMask_Some:
  assumes "ISO_of ft = Some r" and "r \<noteq> []"
  shows "getCrossFilterDataMask p ft =
     Some \<lparr>dataMask =
             \<lparr>extraFormData =
                \<lparr>filters =
                   (if r \<in> set (case selectedValues (filterState p) of None \<Rightarrow> [] | Some xs \<Rightarrow> xs)
                    then []
                    else [\<lparr>col = entity p, op = ''IN'', val = Multi [r], formattedVal = None\<rparr>])\<rparr>,
              mask_filterState =
                \<lparr>fs_value =
                   (if r \<in> set (case selectedValues (filterState p) of None \<Rightarrow> [] | Some xs \<Rightarrow> xs)
                    then None else Some [r]),
                 selectedValues =
                   (if r \<in> set (case selectedValues (filterState p) of None \<Rightarrow> [] | Some xs \<Rightarrow> xs)
                    then None else Some [r])\<rparr>\<rparr>,
           isCurrentValueSelected =
             (r \<in> set (case selectedValues (filterState p) of None \<Rightarrow> [] | Some xs \<Rightarrow> xs))\<rparr>"
  using assms by (simp add: getCrossFilterDataMask_def Let_def)

lemma handleClick_plain:
  assumes "emitCrossFilters p" and "is_function (setDataMask p)"
    and "ISO_of ft = Some r" and "r \<noteq> []" and "\<not> shiftKey e"
  shows "fst (handleClick p (Some e) ft rs) =
     Some \<lparr>extraFormData =
             \<lparr>filters =
                (if set (case selectedValues (filterState p) of None \<Rightarrow> [] | Some xs \<Rightarrow> xs) = {r}
                 then []
                 else [\<lparr>col = entity p, op = ''IN'', val = Multi [r], formattedVal = None\<rparr>])\<rparr>,
           mask_filterState =
             \<lparr>fs_value =
                (if set (case selectedValues (filterState p) of None \<Rightarrow> [] | Some xs \<Rightarrow> xs) = {r}
                 then None else Some [r]),
              selectedValues =
                (if set (case selectedValues (filterState p) of None \<Rightarrow> [] | Some xs \<Rightarrow> xs) = {r}
                 then None else Some [r])\<rparr>\<rparr>"
proof -
  let ?b = "case selectedValues (filterState p) of None \<Rightarrow> [] | Some xs \<Rightarrow> xs"
  have one: "(length (new_Set ?b) = 1 \<and> r \<in> set (new_Set ?b)) = (set ?b = {r})"
    using distinct_length_one [OF distinct_new_Set, of ?b r] by (simp add: set_new_Set)
  show ?thesis
  proof (cases "set ?b = {r}")
    case True
    with one have "length (new_Set ?b) = 1 \<and> set_has (new_Set ?b) r"
      by (simp add: set_has_def)
    with assms True show ?thesis
      by (simp add: handleClick_def Let_def)
  next
    case False
    with one have "\<not> (length (new_Set ?b) = 1 \<and> set_has (new_Set ?b) r)"
      by (simp add: set_has_def)
    with assms False show ?thesis
      by (simp add: handleClick_def Let_def set_add_def)
  qed
qed

section \<open>Context-menu cross-filter against the plain click\<close>

text \<open>
  Claim C2, as amended. For a feature with a non-empty region code \<open>r\<close> and a current
  selection \<open>S\<close>, the context-menu callback is called at the pointer's coordinates, and
  the data mask of its \<open>crossFilter\<close> payload equals the data mask that a plain click on
  the same feature emits, unless \<open>r\<close> is selected together with other codes: then the
  context menu computes the empty selection and the plain click emits exactly \<open>{r}\<close>.
\<close>

theorem crossFilter_versus_plain_click:
  assumes en: "emitCrossFilters p" and cb: "is_function (setDataMask p)"
    and menu: "is_function (onContextMenu p)"
    and isoc: "ISO_of ft = Some r" and ne: "r \<noteq> []" and plain: "\<not> shiftKey e"
  shows "\<exists>payload.
      handleContextMenu p (Some e) ft =
        Inr \<lparr>defaultPrevented = True, menu_call = Some (clientX e, clientY e, payload)\<rparr>
    \<and> (let S = (case selectedValues (filterState p) of None \<Rightarrow> {} | Some xs \<Rightarrow> set xs) in
        if r \<in> S \<and> S \<noteq> {r}
        then map_option dataMask (crossFilter payload) =
               Some \<lparr>extraFormData = \<lparr>filters = []\<rparr>,
                     mask_filterState = \<lparr>fs_value = None, selectedValues = None\<rparr>\<rparr>
             \<and> fst (handleClick p (Some e) ft rs) =
               Some \<lparr>extraFormData =
                       \<lparr>filters = [\<lparr>col = entity p, op = ''IN'', val = Multi [r],
                                     formattedVal = None\<rparr>]\<rparr>,
                     mask_filterState = \<lparr>fs_value = Some [r], selectedValues = Some [r]\<rparr>\<rparr>
        else map_option dataMask (crossFilter payload) = fst (handleClick p (Some e) ft rs))"
proof -
  let ?b = "case selectedValues (filterState p) of None \<Rightarrow> [] | Some xs \<Rightarrow> xs"
  have S: "(case selectedValues (filterState p) of None \<Rightarrow> {} | Some xs \<Rightarrow> set xs) = set ?b"
    by (simp split: option.splits)
  have call: "handleContextMenu p (Some e) ft =
        Inr \<lparr>defaultPrevented = True, menu_call = Some (clientX e, clientY e,
           \<lparr>drillToDetail = [\<lparr>col = entity p, op = ''=='', val = Single r, formattedVal = Some r\<rparr>],
            crossFilter = getCrossFilterDataMask p ft,
            drillBy = \<lparr>drill_filters = [\<lparr>col = entity p, op = ''=='', val = Single r,
                                          formattedVal = None\<rparr>],
                       groupbyFieldName = ''entity''\<rparr>\<rparr>)\<rparr>"
    using menu isoc ne by (simp add: handleContextMenu_def Let_def)
  have cmp: "if r \<in> set ?b \<and> set ?b \<noteq> {r}
        then map_option dataMask (getCrossFilterDataMask p ft) =
               Some \<lparr>extraFormData = \<lparr>filters = []\<rparr>,
                     mask_filterState = \<lparr>fs_value = None, selectedValues = None\<rparr>\<rparr>
             \<and> fst (handleClick p (Some e) ft rs) =
               Some \<lparr>extraFormData =
                       \<lparr>filters = [\<lparr>col = entity p, op = ''IN'', val = Multi [r],
                                     formattedVal = None\<rparr>]\<rparr>,
                     mask_filterState = \<lparr>fs_value = Some [r], selectedValues = Some [r]\<rparr>\<rparr>
        else map_option dataMask (getCrossFilterDataMask p ft) = fst (handleClick p (Some e) ft rs)"
    unfolding getCrossFilterDataMask_Some [OF isoc ne] handleClick_plain [OF en cb isoc ne plain]
    by auto
  show ?thesis
    unfolding S Let_def call using cmp by simp
qed

theorem crossFilter_versus_plain_click_witness:
  "emitCrossFilters sole_selection_props \<and> is_function (setDataMask sole_selection_props)
   \<and> is_function (onContextMenu sole_selection_props)
   \<and> ISO_of region_A = Some ''FR-A'' \<and> ''FR-A'' \<noteq> []
   \<and> handleContextMenu sole_selection_props
        (Some \<lparr>shiftKey = False, clientX = 10, clientY = 20\<rparr>) region_A =
      Inr \<lparr>defaultPrevented = True, menu_call = Some (10, 20,
           \<lparr>drillToDetail = [\<lparr>col = ''region'', op = ''=='', val = Single ''FR-A'',
                               formattedVal = Some ''FR-A''\<rparr>],
            crossFilter = Some \<lparr>dataMask =
                \<lparr>extraFormData = \<lparr>filters = []\<rparr>,
                 mask_filterState = \<lparr>fs_value = None, selectedValues = None\<rparr>\<rparr>,
                isCurrentValueSelected = True\<rparr>,
            drillBy = \<lparr>drill_filters = [\<lparr>col = ''region'', op = ''=='', val = Single ''FR-A'',
                                          formattedVal = None\<rparr>],
                       groupbyFieldName = ''entity''\<rparr>\<rparr>)\<rparr>
   \<and> fst (handleClick sole_selection_props
        (Some \<lparr>shiftKey = False, clientX = 10, clientY = 20\<rparr>) region_A []) =
      Some \<lparr>extraFormData = \<lparr>filters = []\<rparr>,
            mask_filterState = \<lparr>fs_value = None, selectedValues = None\<rparr>\<rparr>"
proof -
  let ?p = "sole_selection_props"
  let ?e = "\<lparr>shiftKey = False, clientX = 10, clientY = 20\<rparr>"
  have h1: "emitCrossFilters ?p" by (simp add: example_props_def sole_selection_props_def)
  have h2: "is_function (setDataMask ?p)" by (simp add: example_props_def sole_selection_props_def is_function_def)
  have h3: "is_function (onContextMenu ?p)" by (simp add: example_props_def sole_selection_props_def is_function_def)
  have h4: "ISO_of region_A = Some ''FR-A''" by (simp add: region_A_def ISO_of_def)
  have h5: "''FR-A'' \<noteq> []" by simp
  have h6: "\<not> shiftKey ?e" by simp
  show ?thesis
    using crossFilter_versus_plain_click [OF h1 h2 h3 h4 h5 h6, of "[]"] h1 h2 h3 h4
    by (simp add: handleClick_def handleContextMenu_def getCrossFilterDataMask_def
        example_props_def sole_selection_props_def region_A_def Let_def new_Set_def set_add_def set_has_def
        set_delete_def is_function_def ISO_of_def)
qed

text \<open>
  The claim as stated fails when the clicked code is one of two selected codes: the
  context menu computes the empty selection, the plain click emits the clicked code.
\<close>

theorem crossFilter_differs_from_click:
  "handleContextMenu example_props (Some \<lparr>shiftKey = False, clientX = 10, clientY = 20\<rparr>) region_A =
      Inr \<lparr>defaultPrevented = True, menu_call = Some (10, 20,
           \<lparr>drillToDetail = [\<lparr>col = ''region'', op = ''=='', val = Single ''FR-A'',
                               formattedVal = Some ''FR-A''\<rparr>],
            crossFilter = Some \<lparr>dataMask =
                \<lparr>extraFormData = \<lparr>filters = []\<rparr>,
                 mask_filterState = \<lparr>fs_value = None, selectedValues = None\<rparr>\<rparr>,
                isCurrentValueSelected = True\<rparr>,
            drillBy = \<lparr>drill_filters = [\<lparr>col = ''region'', op = ''=='', val = Single ''FR-A'',
                                          formattedVal = None\<rparr>],
                       groupbyFieldName = ''entity''\<rparr>\<rparr>)\<rparr>
   \<and> fst (handleClick example_props (Some \<lparr>shiftKey = False, clientX = 10, clientY = 20\<rparr>) region_A []) =
      Some \<lparr>extraFormData =
              \<lparr>filters = [\<lparr>col = ''region'', op = ''IN'', val = Multi [''FR-A''],
                            formattedVal = None\<rparr>]\<rparr>,
            mask_filterState = \<lparr>fs_value = Some [''FR-A''], selectedValues = Some [''FR-A'']\<rparr>\<rparr>
   \<and> map_option dataMask (getCrossFilterDataMask example_props region_A)
       \<noteq> fst (handleClick example_props (Some \<lparr>shiftKey = False, clientX = 10, clientY = 20\<rparr>) region_A [])"
  by (simp add: handleClick_def handleContextMenu_def getCrossFilterDataMask_def
        example_props_def region_A_def Let_def new_Set_def set_add_def set_has_def
        set_delete_def is_function_def ISO_of_def)

lemma highlightSelectedRegion_nth:
  assumes "i < length rs"
  shows "highlightSelectedRegion p rs ! i =
     highlight_region (case selectedValues (filterState p) of None \<Rightarrow> [] | Some xs \<Rightarrow> xs) (rs ! i)"
proof -
  have "(case selectedValues (filterState p) of None \<Rightarrow> []
         | Some xs \<Rightarrow> if length xs \<noteq> 0 then xs else [])
      = (case selectedValues (filterState p) of None \<Rightarrow> [] | Some xs \<Rightarrow> xs)"
    by (simp split: option.splits)
  with assms show ?thesis
    by (simp add: highlightSelectedRegion_def)
qed

section \<open>Selection highlighting\<close>

text \<open>
  Claim C3. For every selection \<open>S\<close> and every region with code \<open>r\<close>, the highlighting
  pass sets the fill opacity to 1 if \<open>S\<close> is empty or \<open>r\<close> is selected and to 0.3
  otherwise; a selected region gets the stroke \<open>#222\<close> of width \<open>1.5px\<close>, an unselected one
  has its inline stroke removed and the width \<open>0.5px\<close>. Nothing else of the region changes.
\<close>

theorem highlight_styles:
  assumes idx: "i < length rs" and code: "ISO_of (region_datum (rs ! i)) = Some r"
  shows "let S = (case selectedValues (filterState p) of None \<Rightarrow> {} | Some xs \<Rightarrow> set xs);
             rg = highlightSelectedRegion p rs ! i
         in fill_opacity rg = Some (if S = {} \<or> r \<in> S then 1 else 0.3)
          \<and> stroke rg = (if r \<in> S then Some ''#222'' else None)
          \<and> stroke_width rg = Some (if r \<in> S then ''1.5px'' else ''0.5px'')
          \<and> region_datum rg = region_datum (rs ! i) \<and> fill rg = fill (rs ! i)"
proof (cases "selectedValues (filterState p)")
  case None
  with idx code show ?thesis
    by (simp add: highlightSelectedRegion_def highlight_region_def includes_iso_def Let_def)
next
  case (Some xs)
  with idx code show ?thesis
    by (cases xs)
      (simp_all add: highlightSelectedRegion_def highlight_region_def includes_iso_def Let_def)
qed

theorem highlight_styles_witness:
  "(0::nat) < length [\<lparr>region_datum = region_A, fill = ''#eeeeff'', fill_opacity = None,
                       stroke = None, stroke_width = None\<rparr>,
                     \<lparr>region_datum = region_C, fill = ''#FFFEFE'', fill_opacity = None,
                       stroke = None, stroke_width = None\<rparr>]
   \<and> highlightSelectedRegion example_props
        [\<lparr>region_datum = region_A, fill = ''#eeeeff'', fill_opacity = None,
          stroke = None, stroke_width = None\<rparr>,
         \<lparr>region_datum = region_C, fill = ''#FFFEFE'', fill_opacity = None,
          stroke = None, stroke_width = None\<rparr>]
      = [\<lparr>region_datum = region_A, fill = ''#eeeeff'', fill_opacity = Some 1,
          stroke = Some ''#222'', stroke_width = Some ''1.5px''\<rparr>,
         \<lparr>region_datum = region_C, fill = ''#FFFEFE'', fill_opacity = Some 0.3,
          stroke = None, stroke_width = Some ''0.5px''\<rparr>]"
proof -
  let ?rs = "[\<lparr>region_datum = region_A, fill = ''#eeeeff'', fill_opacity = None,
          stroke = None, stroke_width = None\<rparr>,
         \<lparr>region_datum = region_C, fill = ''#FFFEFE'', fill_opacity = None,
          stroke = None, stroke_width = None\<rparr>]"
  have h1: "(0::nat) < length ?rs" by simp
  have h2: "ISO_of (region_datum (?rs ! 0)) = Some ''FR-A''"
    by (simp add: region_A_def ISO_of_def)
  show ?thesis
    using highlight_styles [OF h1 h2, of example_props]
    by (simp add: highlightSelectedRegion_def highlight_region_def includes_iso_def Let_def
        example_props_def region_A_def region_C_def ISO_of_def)
qed

section \<open>Context menu on a feature without a code\<close>

text \<open>
  Claim C10. With a context-menu callback supplied, a right-click on a feature that has
  no properties, no ISO code or an empty one calls \<open>preventDefault\<close> on the pointer event
  and does not call the callback.
\<close>

theorem contextmenu_suppressed_without_code:
  assumes menu: "is_function (onContextMenu p)"
    and nocode: "ISO_of ft = None \<or> ISO_of ft = Some []"
  shows "handleContextMenu p (Some e) ft = Inr \<lparr>defaultPrevented = True, menu_call = None\<rparr>"
  using menu nocode by (auto simp: handleContextMenu_def Let_def)

theorem contextmenu_suppressed_without_code_witness:
  "is_function (onContextMenu example_props)
   \<and> ISO_of no_properties = None \<and> ISO_of no_code = None
   \<and> handleContextMenu example_props (Some \<lparr>shiftKey = False, clientX = 10, clientY = 20\<rparr>) no_properties
       = Inr \<lparr>defaultPrevented = True, menu_call = None\<rparr>
   \<and> handleContextMenu example_props (Some \<lparr>shiftKey = False, clientX = 10, clientY = 20\<rparr>) no_code
       = Inr \<lparr>defaultPrevented = True, menu_call = None\<rparr>"
proof -
  have h1: "is_function (onContextMenu example_props)"
    by (simp add: example_props_def is_function_def)
  have h2: "ISO_of no_properties = None" by (simp add: no_properties_def ISO_of_def)
  have h3: "ISO_of no_code = None" by (simp add: no_code_def ISO_of_def)
  show ?thesis
    using h1 h2 h3
      contextmenu_suppressed_without_code [OF h1 disjI1 [OF h2]]
      contextmenu_suppressed_without_code [OF h1 disjI1 [OF h3]]
    by simp
qed

lemma filter_first_match:
  assumes "\<forall>x\<in>set pre. \<not> P x" and "P r"
  shows "filter P (pre @ r # post) = r # filter P post"
  using assms by (induction pre) auto

lemma filter_no_match:
  assumes "\<forall>x\<in>set xs. \<not> P x"
  shows "filter P xs = []"
  using assms by (induction xs) auto

section \<open>Metric text on hover\<close>

text \<open>
  Claim C9. On hover over a region, the metric text is the formatted metric of the first
  data row, in input order, whose \<open>country_id\<close> equals the ISO code of the region's
  feature, whatever rows follow it; it is the empty string when no row matches.
\<close>

theorem mouseenter_metric_text:
  assumes idx: "i < length (regions tree)"
  shows "(\<forall>pre r post.
            data p = pre @ r # post
            \<and> (\<forall>x\<in>set pre. Some (country_id x) \<noteq> ISO_of (region_datum (regions tree ! i)))
            \<and> Some (country_id r) = ISO_of (region_datum (regions tree ! i))
            \<longrightarrow> resultText (mouseenter ex p i tree) = getNumberFormatter ex (numberFormat p) (metric r))
       \<and> ((\<forall>x\<in>set (data p). Some (country_id x) \<noteq> ISO_of (region_datum (regions tree ! i)))
            \<longrightarrow> resultText (mouseenter ex p i tree) = [])"
proof (intro conjI allI impI)
  let ?P = "\<lambda>r. Some (country_id r) = ISO_of (region_datum (regions tree ! i))"
  have shown: "resultText (mouseenter ex p i tree) = updateMetrics ex p (filter ?P (data p))"
    using idx by (simp add: mouseenter_def Let_def)
  fix pre r post
  assume a: "data p = pre @ r # post
            \<and> (\<forall>x\<in>set pre. Some (country_id x) \<noteq> ISO_of (region_datum (regions tree ! i)))
            \<and> Some (country_id r) = ISO_of (region_datum (regions tree ! i))"
  then have "filter ?P (data p) = r # filter ?P post"
    using filter_first_match [of pre ?P r post] by simp
  then show "resultText (mouseenter ex p i tree) = getNumberFormatter ex (numberFormat p) (metric r)"
    unfolding shown by (simp add: updateMetrics_def)
next
  let ?P = "\<lambda>r. Some (country_id r) = ISO_of (region_datum (regions tree ! i))"
  have shown: "resultText (mouseenter ex p i tree) = updateMetrics ex p (filter ?P (data p))"
    using idx by (simp add: mouseenter_def Let_def)
  assume "\<forall>x\<in>set (data p). Some (country_id x) \<noteq> ISO_of (region_datum (regions tree ! i))"
  then have "filter ?P (data p) = []"
    using filter_no_match [of "data p" ?P] by simp
  then show "resultText (mouseenter ex p i tree) = []"
    unfolding shown by (simp add: updateMetrics_def)
qed

theorem mouseenter_metric_text_witness:
  "(0::nat) < length (regions (drawMap example_externals example_props example_geometry empty_tree))
   \<and> resultText (mouseenter example_externals example_props 0
        (drawMap example_externals example_props example_geometry empty_tree)) = ''1''
   \<and> resultText (mouseenter example_externals example_props 1
        (drawMap example_externals example_props example_geometry empty_tree)) = []"
proof -
  let ?t = "drawMap example_externals example_props example_geometry empty_tree"
  have len: "length (regions ?t) = 4"
    by (simp add: drawMap_def example_geometry_def highlightSelectedRegion_def Let_def)
  have h0: "0 < length (regions ?t)" and h1: "1 < length (regions ?t)"
    using len by simp_all
  have d0: "region_datum (regions ?t ! 0) = region_A" and d1: "region_datum (regions ?t ! 1) = region_C"
    by (simp_all add: drawMap_def example_geometry_def highlightSelectedRegion_def
        highlight_region_def Let_def)
  let ?r0 = "\<lparr>country_id = ''FR-A'', metric = 1\<rparr>"
  let ?rest = "[\<lparr>country_id = ''FR-B'', metric = 5\<rparr>, \<lparr>country_id = ''FR-A'', metric = 10\<rparr>]"
  have first: "data example_props = [] @ ?r0 # ?rest
      \<and> (\<forall>x\<in>set []. Some (country_id x) \<noteq> ISO_of (region_datum (regions ?t ! 0)))
      \<and> Some (country_id ?r0) = ISO_of (region_datum (regions ?t ! 0))"
    unfolding d0 by (simp add: example_props_def region_A_def ISO_of_def)
  have none: "\<forall>x\<in>set (data example_props).
      Some (country_id x) \<noteq> ISO_of (region_datum (regions ?t ! 1))"
    unfolding d1 by (simp add: example_props_def region_C_def ISO_of_def)
  have a: "resultText (mouseenter example_externals example_props 0 ?t) = ''1''"
    using mouseenter_metric_text [OF h0, THEN conjunct1, rule_format, OF first, of example_externals]
    by (simp add: example_externals_def)
  have b: "resultText (mouseenter example_externals example_props 1 ?t) = []"
    using mouseenter_metric_text [OF h1, THEN conjunct2, THEN mp, OF none, of example_externals]
    by simp
  show ?thesis using h0 a b by simp
qed

lemma find_snoc:
  "find P (xs @ [d]) = (case find P xs of None \<Rightarrow> (if P d then Some d else None) | Some x \<Rightarrow> Some x)"
  by (induction xs) auto

lemma foldl_update_lookup:
  "foldl (\<lambda>m d. m(country_id d \<mapsto> f d)) m0 ds k =
     (case find (\<lambda>d. country_id d = k) (rev ds) of None \<Rightarrow> m0 k | Some d \<Rightarrow> Some (f d))"
proof (induction ds arbitrary: m0)
  case Nil
  show ?case by simp
next
  case (Cons d ds)
  let ?F = "\<lambda>m d. m(country_id d \<mapsto> f d)"
  have "foldl ?F m0 (d # ds) k = foldl ?F (m0(country_id d \<mapsto> f d)) ds k"
    by simp
  also have "\<dots> = (case find (\<lambda>d. country_id d = k) (rev ds) of
                      None \<Rightarrow> (m0(country_id d \<mapsto> f d)) k
                    | Some d' \<Rightarrow> Some (f d'))"
    by (rule Cons.IH)
  also have "\<dots> = (case find (\<lambda>d. country_id d = k) (rev (d # ds)) of
                      None \<Rightarrow> m0 k
                    | Some d' \<Rightarrow> Some (f d'))"
    by (simp add: find_snoc split: option.splits)
  finally show ?case .
qed

lemma colorMap_last_row:
  "colorMap ex p k = map_option (row_color ex p) (find (\<lambda>d. country_id d = k) (rev (data p)))"
  by (simp add: colorMap_def foldl_update_lookup split: option.splits)

lemma drawMap_region:
  assumes "i < length (features m)"
  shows "region_datum (regions (drawMap ex p m tree) ! i) = features m ! i"
    and "fill (regions (drawMap ex p m tree) ! i) = colorFn ex p (features m ! i)"
    and "length (regions (drawMap ex p m tree)) = length (features m)"
  using assms
  by (simp_all add: drawMap_def highlightSelectedRegion_def highlight_region_def Let_def)

lemma colorFn_last_row:
  "colorFn ex p ft =
      (case properties ft of
         None \<Rightarrow> ''none''
       | Some ps \<Rightarrow>
           (case find (\<lambda>d. country_id d = property_key (ISO ps)) (rev (data p)) of
              None \<Rightarrow> ''#FFFEFE''
            | Some d \<Rightarrow> if row_color ex p d = [] then ''#FFFEFE'' else row_color ex p d))"
  by (simp add: colorFn_def colorMap_last_row split: option.splits)

lemma mouseout_fill:
  assumes "j < length (regions t)"
  shows "fill (regions (mouseout ex p j t) ! j) = colorFn ex p (region_datum (regions t ! j))"
  using assms by (simp add: mouseout_def)

lemma mouseenter_region:
  assumes "i < length (regions t)"
  shows "region_datum (regions (mouseenter ex p i t) ! i) = region_datum (regions t ! i)"
    and "length (regions (mouseenter ex p i t)) = length (regions t)"
    and "fill (regions (mouseenter ex p i t) ! i) =
           (if colorFn ex p (region_datum (regions t ! i)) \<noteq> []
               \<and> colorFn ex p (region_datum (regions t ! i)) \<noteq> ''none''
            then darker ex (colorFn ex p (region_datum (regions t ! i)))
            else colorFn ex p (region_datum (regions t ! i)))"
  using assms by (simp_all add: mouseenter_def Let_def)

lemma drawn_example_fields:
  "length (regions (drawMap example_externals example_props example_geometry empty_tree)) = 4"
  "length (features example_geometry) = 4"
  "features example_geometry ! 0 = region_A"
  "features example_geometry ! 1 = region_C"
  "features example_geometry ! Suc 0 = region_C"
  "features example_geometry ! 2 = no_code"
  by (simp_all add: drawMap_def example_geometry_def highlightSelectedRegion_def Let_def)

section \<open>Fill colour\<close>

text \<open>
  Claim C7, as amended. Call the base colour of a feature \<open>none\<close> when it has no
  properties record and otherwise the colour-map entry under the key of \<open>properties.ISO\<close>
  (present or not), that is the colour of the last data row with that \<open>country_id\<close>, with
  the fallback \<open>#FFFEFE\<close> when no row has it or the entry is an empty string. Then
  \<open>drawMap\<close> gives every feature its base colour as fill, and mouse-out on a region of any
  svg tree, whatever its fill was, sets the fill to the base colour of the region's
  feature; in particular mouse-out after mouse-enter restores the drawn fill.
\<close>

theorem fill_color_of_feature:
  assumes idx: "i < length (features m)" and jdx: "j < length (regions t)"
  shows "let base = (\<lambda>ft. case properties ft of
                    None \<Rightarrow> ''none''
                  | Some ps \<Rightarrow>
                      (case find (\<lambda>d. country_id d = property_key (ISO ps)) (rev (data p)) of
                         None \<Rightarrow> ''#FFFEFE''
                       | Some d \<Rightarrow> if row_color ex p d = [] then ''#FFFEFE'' else row_color ex p d));
             drawn = drawMap ex p m tree
         in fill (regions drawn ! i) = base (features m ! i)
          \<and> fill (regions (mouseout ex p j t) ! j) = base (region_datum (regions t ! j))
          \<and> fill (regions (mouseout ex p i (mouseenter ex p i drawn)) ! i) = base (features m ! i)"
proof -
  let ?drawn = "drawMap ex p m tree"
  have len: "i < length (regions ?drawn)"
    using idx drawMap_region(3) [OF idx, of ex p tree] by simp
  have a: "fill (regions ?drawn ! i) = colorFn ex p (features m ! i)"
    by (rule drawMap_region(2) [OF idx])
  have b: "fill (regions (mouseout ex p j t) ! j) = colorFn ex p (region_datum (regions t ! j))"
    by (rule mouseout_fill [OF jdx])
  have len': "i < length (regions (mouseenter ex p i ?drawn))"
    using len mouseenter_region(2) [OF len, of ex p] by simp
  have c: "fill (regions (mouseout ex p i (mouseenter ex p i ?drawn)) ! i)
      = colorFn ex p (features m ! i)"
    using mouseout_fill [OF len', of ex p] mouseenter_region(1) [OF len, of ex p]
      drawMap_region(1) [OF idx, of ex p tree]
    by simp
  show ?thesis
    unfolding Let_def using a b c by (simp add: colorFn_last_row)
qed

theorem fill_color_of_feature_witness:
  "(0::nat) < length (features example_geometry)
   \<and> (0::nat) < length (regions (mouseenter example_externals example_props 0
          (drawMap example_externals example_props example_geometry empty_tree)))
   \<and> fill (regions (drawMap example_externals example_props example_geometry empty_tree) ! 0) = ''#0000ff''
   \<and> fill (regions (mouseenter example_externals example_props 0
          (drawMap example_externals example_props example_geometry empty_tree)) ! 0) = ''darker #0000ff''
   \<and> fill (regions (mouseout example_externals example_props 0
          (mouseenter example_externals example_props 0
            (drawMap example_externals example_props example_geometry empty_tree))) ! 0) = ''#0000ff''
   \<and> fill (regions (drawMap example_externals example_props example_geometry empty_tree) ! 1) = ''#FFFEFE''
   \<and> fill (regions (drawMap example_externals example_props example_geometry empty_tree) ! 2) = ''#FFFEFE''
   \<and> fill (regions (mouseout example_externals example_props 2
        (drawMap example_externals example_props example_geometry empty_tree)) ! 2) = ''#FFFEFE''"
proof -
  let ?drawn = "drawMap example_externals example_props example_geometry empty_tree"
  let ?hover = "mouseenter example_externals example_props 0 ?drawn"
  have h0: "0 < length (features example_geometry)" and h1: "1 < length (features example_geometry)"
    and h2: "2 < length (features example_geometry)"
    by (simp_all add: drawn_example_fields)
  have d0: "0 < length (regions ?drawn)" and d2: "2 < length (regions ?drawn)"
    by (simp_all add: drawn_example_fields)
  have j0: "0 < length (regions ?hover)"
    using mouseenter_region(2) [OF d0, of example_externals example_props] d0 by simp
  have colA: "colorFn example_externals example_props region_A = ''#0000ff''"
    by (simp add: colorFn_last_row region_A_def property_key_def example_props_def row_color_def
        example_externals_def)
  have dark: "darker example_externals ''#0000ff'' = ''darker #0000ff''"
    by (simp add: example_externals_def)
  have hov: "fill (regions ?hover ! 0) = ''darker #0000ff''"
    using mouseenter_region(3) [OF d0, of example_externals example_props]
      drawMap_region(1) [OF h0, of example_externals example_props empty_tree]
    by (simp add: drawn_example_fields colA dark)
  have colC: "colorFn example_externals example_props region_C = ''#FFFEFE''"
    by (simp add: colorFn_last_row region_C_def property_key_def example_props_def)
  have colN: "colorFn example_externals example_props no_code = ''#FFFEFE''"
    by (simp add: colorFn_last_row no_code_def property_key_def example_props_def)
  have a: "fill (regions ?drawn ! 0) = ''#0000ff''
      \<and> fill (regions (mouseout example_externals example_props 0 ?hover) ! 0) = ''#0000ff''"
  proof -
    note t = fill_color_of_feature [OF h0 j0, of example_externals example_props empty_tree,
        unfolded Let_def colorFn_last_row [symmetric]]
    show ?thesis
      using t [THEN conjunct1] t [THEN conjunct2, THEN conjunct2]
      by (simp add: drawn_example_fields colA)
  qed
  have b: "fill (regions ?drawn ! 1) = ''#FFFEFE''"
    using fill_color_of_feature [OF h1 j0, of example_externals example_props empty_tree,
        unfolded Let_def colorFn_last_row [symmetric], THEN conjunct1]
    by (simp add: drawn_example_fields colC)
  have c: "fill (regions ?drawn ! 2) = ''#FFFEFE''
      \<and> fill (regions (mouseout example_externals example_props 2 ?drawn) ! 2) = ''#FFFEFE''"
  proof -
    note t = fill_color_of_feature [OF h2 d2, of example_externals example_props empty_tree,
        unfolded Let_def colorFn_last_row [symmetric]]
    show ?thesis
      using t [THEN conjunct1] t [THEN conjunct2, THEN conjunct1]
        drawMap_region(1) [OF h2, of example_externals example_props empty_tree]
      by (simp add: drawn_example_fields colN)
  qed
  show ?thesis using h0 j0 hov a b c by simp
qed

text \<open>
  The claim as stated fails for a feature without a properties record: no colour-map
  entry is present for it, yet its fill is \<open>none\<close>, not the fallback colour.
\<close>

theorem fill_without_properties_is_none:
  "fill (regions (drawMap example_externals example_props example_geometry empty_tree) ! 3) = ''none''
   \<and> fill (regions (mouseout example_externals example_props 3
        (drawMap example_externals example_props example_geometry empty_tree)) ! 3) = ''none''
   \<and> region_datum (regions (drawMap example_externals example_props example_geometry empty_tree) ! 3)
       = \<lparr>properties = None\<rparr>
   \<and> colorMap example_externals example_props ''undefined'' = None
   \<and> ''none'' \<noteq> ''#FFFEFE''"
  by (simp add: drawMap_def mouseout_def highlightSelectedRegion_def highlight_region_def Let_def
      example_geometry_def no_properties_def colorFn_def colorMap_def example_props_def)

lemma update_dom_fields:
  "zoomStates (update_dom i t s) = zoomStates s"
  "maps (update_dom i t s) = maps s"
  "fetches (update_dom i t s) = fetches s"
  "pending (update_dom i t s) = pending s"
  "calls (update_dom i t s) = calls s"
  "containers (update_dom i t s) = containers s"
  "length (instances (update_dom i t s)) = length (instances s)"
  by (simp_all add: update_dom_def)

lemma displayed_less: "displayed s i \<Longrightarrow> i < length (instances s)"
  by (simp add: displayed_def split: if_splits)

section \<open>Zoom clamp\<close>

text \<open>
  Claim C4. For every zoom event (any scale, in particular one in \<open>[1, 4]\<close>, and any raw
  translation) on a displayed chart, the translation \<open>(tx, ty)\<close> written into the
  transform of the content group and into the zoom-state store under the chart key
  satisfies \<open>min(0, width - width*scale) \<le> tx \<le> 0\<close> and
  \<open>min(0, height - height*scale) \<le> ty \<le> 0\<close>.
\<close>

theorem zoom_translate_clamped:
  assumes shown: "displayed s i"
  shows "\<exists>tx ty.
     (let p = inst_props (instances s ! i); s' = step ex (Zoom i e) s in
        g_transform (inst_dom (instances s' ! i)) = Some (Transform tx ty (scale e))
      \<and> zoomStates s' (chartKey ex p) = Some \<lparr>scale = scale e, translate = (tx, ty)\<rparr>
      \<and> min 0 (width p - width p * scale e) \<le> tx \<and> tx \<le> 0
      \<and> min 0 (height p - height p * scale e) \<le> ty \<and> ty \<le> 0)"
proof -
  let ?p = "inst_props (instances s ! i)"
  let ?tx = "max (min (fst (translate e)) 0) (min 0 (width ?p - width ?p * scale e))"
  let ?ty = "max (min (snd (translate e)) 0) (min 0 (height ?p - height ?p * scale e))"
  have z: "on_zoom ex ?p e (zoomStates s, inst_dom (instances s ! i)) =
      ((zoomStates s)(chartKey ex ?p \<mapsto> \<lparr>scale = scale e, translate = (?tx, ?ty)\<rparr>),
       (inst_dom (instances s ! i))\<lparr>g_transform := Some (Transform ?tx ?ty (scale e))\<rparr>)"
    by (simp add: on_zoom_def Let_def)
  have a: "g_transform (inst_dom (instances (step ex (Zoom i e) s) ! i)) = Some (Transform ?tx ?ty (scale e))"
    using shown displayed_less [OF shown] by (simp add: z Let_def update_dom_def)
  have b: "zoomStates (step ex (Zoom i e) s) (chartKey ex ?p) = Some \<lparr>scale = scale e, translate = (?tx, ?ty)\<rparr>"
    using shown by (simp add: z Let_def update_dom_def)
  have c: "min 0 (width ?p - width ?p * scale e) \<le> ?tx \<and> ?tx \<le> 0
      \<and> min 0 (height ?p - height ?p * scale e) \<le> ?ty \<and> ?ty \<le> 0"
    by simp
  show ?thesis
    unfolding Let_def using a b c by blast
qed

lemma chartKey_example: "chartKey example_externals example_props = ''slice-7''"
  by (simp add: chartKey_def example_props_def Let_def)

lemma example_props_fields:
  "country example_props = ''france''"
  "width example_props = 800"
  "height example_props = 400"
  by (simp_all add: example_props_def)

lemma drawMap_keeps_transform: "g_transform (drawMap ex p m t) = g_transform t"
  by (simp add: drawMap_def)

lemma loaded_system_shape:
  "displayed loaded_system 0"
  "inst_props (instances loaded_system ! 0) = example_props"
  "zoomStates loaded_system = Map.empty"
  "maps loaded_system ''france'' = Some example_geometry"
  "length (instances loaded_system) = 1"
  "g_transform (inst_dom (instances loaded_system ! 0)) = None"
  "pending loaded_system = []"
  "length (fetches loaded_system) = 1"
  by (simp_all add: loaded_system_def run_def CountryMap_def json_callback_def Let_def
      initial_system_def displayed_def example_props_fields chartKey_example
      drawMap_keeps_transform)

theorem zoom_translate_clamped_witness:
  "displayed loaded_system 0
   \<and> g_transform (inst_dom (instances
        (step example_externals (Zoom 0 \<lparr>scale = 2, translate = (50, - 1000)\<rparr>) loaded_system) ! 0))
       = Some (Transform 0 (- 400) 2)
   \<and> zoomStates (step example_externals (Zoom 0 \<lparr>scale = 2, translate = (50, - 1000)\<rparr>) loaded_system)
        ''slice-7'' = Some \<lparr>scale = 2, translate = (0, - 400)\<rparr>"
proof -
  have h: "displayed loaded_system 0" by (rule loaded_system_shape)
  have len: "0 < length (instances loaded_system)" by (simp add: loaded_system_shape)
  show ?thesis
    using h len zoom_translate_clamped [OF h, of example_externals "\<lparr>scale = 2, translate = (50, - 1000)\<rparr>"]
    by (simp add: loaded_system_shape chartKey_example on_zoom_def update_dom_def Let_def
        example_props_fields)
qed

lemma CountryMap_new_invocation:
  "g_transform (inst_dom (last (instances (CountryMap ex el p s)))) =
     (case zoomStates s (chartKey ex p) of
        None \<Rightarrow> None
      | Some z \<Rightarrow> Some (Transform (fst (translate z)) (snd (translate z)) (scale z)))"
  "containers (CountryMap ex el p s) el = Svg (length (instances s))"
  "zoomStates (CountryMap ex el p s) = zoomStates s"
  "maps (CountryMap ex el p s) = maps s"
  "calls (CountryMap ex el p s) = calls s"
  "length (instances (CountryMap ex el p s)) = Suc (length (instances s))"
  "inst_props (last (instances (CountryMap ex el p s))) = p"
  "inst_element (last (instances (CountryMap ex el p s))) = el"
  by (simp_all add: CountryMap_def Let_def drawMap_keeps_transform split: option.splits)

lemma displayed_after_render: "displayed (CountryMap ex el p s) (length (instances s))"
  by (simp add: CountryMap_def Let_def displayed_def split: option.splits)

section \<open>Zoom state across renders\<close>

text \<open>
  Claim C5. A render of a chart with key \<open>K\<close> (the slice identifier, or the composite of
  country, width and height) gives the content group of its new svg exactly the transform
  stored under \<open>K\<close> in the zoom-state store, before any event reaches that svg, and no
  transform when nothing is stored under \<open>K\<close>. In particular a render that follows a zoom
  gesture on a chart with key \<open>K\<close> restores the scale and translation that the gesture
  stored and applied.
\<close>

theorem zoom_state_restored:
  "(let s' = step ex (Render el p) s; tree = inst_dom (last (instances s')) in
      (\<forall>z. zoomStates s (chartKey ex p) = Some z \<longrightarrow>
           g_transform tree = Some (Transform (fst (translate z)) (snd (translate z)) (scale z)))
    \<and> (zoomStates s (chartKey ex p) = None \<longrightarrow> g_transform tree = None)
    \<and> displayed s' (length (instances s)))
   \<and> (\<forall>i e. displayed s i \<and> chartKey ex (inst_props (instances s ! i)) = chartKey ex p \<longrightarrow>
        (let s1 = step ex (Zoom i e) s; s2 = step ex (Render el p) s1 in
           (\<exists>tx ty. zoomStates s1 (chartKey ex p) = Some \<lparr>scale = scale e, translate = (tx, ty)\<rparr>
                  \<and> g_transform (inst_dom (last (instances s2))) = Some (Transform tx ty (scale e)))
         \<and> g_transform (inst_dom (last (instances s2))) = g_transform (inst_dom (instances s1 ! i))))"
proof -
  have after_zoom: "(\<exists>tx ty. zoomStates (step ex (Zoom i e) s) (chartKey ex p)
              = Some \<lparr>scale = scale e, translate = (tx, ty)\<rparr>
           \<and> g_transform (inst_dom (last (instances (step ex (Render el p) (step ex (Zoom i e) s)))))
              = Some (Transform tx ty (scale e)))
         \<and> g_transform (inst_dom (last (instances (step ex (Render el p) (step ex (Zoom i e) s)))))
              = g_transform (inst_dom (instances (step ex (Zoom i e) s) ! i))"
    if d: "displayed s i" and k: "chartKey ex (inst_props (instances s ! i)) = chartKey ex p" for i e
  proof -
    let ?q = "inst_props (instances s ! i)"
    let ?tx = "max (min (fst (translate e)) 0) (min 0 (width ?q - width ?q * scale e))"
    let ?ty = "max (min (snd (translate e)) 0) (min 0 (height ?q - height ?q * scale e))"
    have z: "on_zoom ex ?q e (zoomStates s, inst_dom (instances s ! i)) =
        ((zoomStates s)(chartKey ex p \<mapsto> \<lparr>scale = scale e, translate = (?tx, ?ty)\<rparr>),
         (inst_dom (instances s ! i))\<lparr>g_transform := Some (Transform ?tx ?ty (scale e))\<rparr>)"
      by (simp add: on_zoom_def Let_def k)
    have stored: "zoomStates (step ex (Zoom i e) s) (chartKey ex p)
        = Some \<lparr>scale = scale e, translate = (?tx, ?ty)\<rparr>"
      using d by (simp add: z Let_def update_dom_fields)
    have applied: "g_transform (inst_dom (instances (step ex (Zoom i e) s) ! i))
        = Some (Transform ?tx ?ty (scale e))"
      using d displayed_less [OF d] by (simp add: z Let_def update_dom_def)
    have restored: "g_transform (inst_dom (last (instances (step ex (Render el p) (step ex (Zoom i e) s)))))
        = Some (Transform ?tx ?ty (scale e))"
      using stored by (simp add: CountryMap_new_invocation del: step.simps(7))
    show ?thesis using stored applied restored by simp
  qed
  show ?thesis
    unfolding Let_def
  proof (intro conjI allI impI)
    fix z
    assume "zoomStates s (chartKey ex p) = Some z"
    then show "g_transform (inst_dom (last (instances (step ex (Render el p) s))))
        = Some (Transform (fst (translate z)) (snd (translate z)) (scale z))"
      by (simp add: CountryMap_new_invocation)
  next
    assume "zoomStates s (chartKey ex p) = None"
    then show "g_transform (inst_dom (last (instances (step ex (Render el p) s)))) = None"
      by (simp add: CountryMap_new_invocation)
  next
    show "displayed (step ex (Render el p) s) (length (instances s))"
      by (simp add: displayed_after_render)
  next
    fix i e
    assume a: "displayed s i \<and> chartKey ex (inst_props (instances s ! i)) = chartKey ex p"
    show "\<exists>tx ty. zoomStates (step ex (Zoom i e) s) (chartKey ex p)
              = Some \<lparr>scale = scale e, translate = (tx, ty)\<rparr>
           \<and> g_transform (inst_dom (last (instances (step ex (Render el p) (step ex (Zoom i e) s)))))
              = Some (Transform tx ty (scale e))"
      by (rule conjunct1 [OF after_zoom [OF conjunct1 [OF a] conjunct2 [OF a]]])
  next
    fix i e
    assume a: "displayed s i \<and> chartKey ex (inst_props (instances s ! i)) = chartKey ex p"
    show "g_transform (inst_dom (last (instances (step ex (Render el p) (step ex (Zoom i e) s)))))
              = g_transform (inst_dom (instances (step ex (Zoom i e) s) ! i))"
      by (rule conjunct2 [OF after_zoom [OF conjunct1 [OF a] conjunct2 [OF a]]])
  qed
qed

theorem zoom_state_restored_witness:
  "displayed loaded_system 0
   \<and> chartKey example_externals (inst_props (instances loaded_system ! 0))
       = chartKey example_externals example_props
   \<and> zoomStates (step example_externals (Zoom 0 \<lparr>scale = 2, translate = (- 10, - 5)\<rparr>) loaded_system)
        ''slice-7'' = Some \<lparr>scale = 2, translate = (- 10, - 5)\<rparr>
   \<and> g_transform (inst_dom (last (instances
        (step example_externals (Render 0 example_props)
          (step example_externals (Zoom 0 \<lparr>scale = 2, translate = (- 10, - 5)\<rparr>) loaded_system)))))
       = Some (Transform (- 10) (- 5) 2)
   \<and> g_transform (inst_dom (last (instances
        (step example_externals (Render 0 example_props) loaded_system)))) = None"
proof -
  let ?e = "\<lparr>scale = 2, translate = (- 10, - 5)\<rparr> :: zoom_state"
  let ?s1 = "step example_externals (Zoom 0 ?e) loaded_system"
  note t = zoom_state_restored [of example_externals 0 example_props loaded_system, unfolded Let_def]
  have ante: "displayed loaded_system 0
      \<and> chartKey example_externals (inst_props (instances loaded_system ! 0))
          = chartKey example_externals example_props"
    by (simp add: loaded_system_shape)
  have len: "0 < length (instances loaded_system)" by (simp add: loaded_system_shape)
  have same: "g_transform (inst_dom (last (instances (step example_externals (Render 0 example_props) ?s1))))
      = g_transform (inst_dom (instances ?s1 ! 0))"
    by (rule t [THEN conjunct2, THEN spec, THEN spec, THEN mp, OF ante, THEN conjunct2])
  have applied: "g_transform (inst_dom (instances ?s1 ! 0)) = Some (Transform (- 10) (- 5) 2)"
    using len
    by (simp add: loaded_system_shape on_zoom_def update_dom_def Let_def example_props_fields)
  have stored: "zoomStates ?s1 ''slice-7'' = Some \<lparr>scale = 2, translate = (- 10, - 5)\<rparr>"
    by (simp add: loaded_system_shape on_zoom_def update_dom_def Let_def example_props_fields
        chartKey_example)
  have fresh: "g_transform (inst_dom (last (instances
        (step example_externals (Render 0 example_props) loaded_system)))) = None"
    using t [THEN conjunct1, THEN conjunct2, THEN conjunct1]
    by (simp add: loaded_system_shape chartKey_example)
  show ?thesis
    using ante same applied stored fresh by simp
qed

lemma step_keeps_cache:
  assumes "maps s c = Some m"
  shows "\<exists>m'. maps (step ex e s) c = Some m'"
proof (cases e)
  case (Render el p)
  with assms show ?thesis by (simp add: CountryMap_new_invocation)
next
  case (FetchDone k res)
  with assms show ?thesis
    by (cases res) (simp_all add: json_callback_def Let_def)
next
  case (Click i j ev)
  with assms show ?thesis by (simp add: Let_def update_dom_fields)
next
  case (ContextMenu i j ev)
  with assms show ?thesis by (simp add: Let_def split: sum.splits)
next
  case (MouseEnter i j)
  with assms show ?thesis by (simp add: update_dom_fields)
next
  case (MouseOut i j)
  with assms show ?thesis by (simp add: update_dom_fields)
next
  case (Zoom i z)
  with assms show ?thesis by (simp add: Let_def update_dom_fields)
qed

lemma step_no_fetch:
  assumes "maps s c = Some m"
  shows "filter (\<lambda>q. req_country q = c) (fetches (step ex e s))
       = filter (\<lambda>q. req_country q = c) (fetches s)"
proof (cases e)
  case (Render el p)
  with assms show ?thesis
    by (cases "maps s (country p)") (auto simp: CountryMap_def Let_def)
next
  case (FetchDone k res)
  then show ?thesis
    by (cases res) (simp_all add: json_callback_def Let_def)
next
  case (Click i j ev)
  then show ?thesis by (simp add: Let_def update_dom_fields)
next
  case (ContextMenu i j ev)
  then show ?thesis by (simp add: Let_def split: sum.splits)
next
  case (MouseEnter i j)
  then show ?thesis by (simp add: update_dom_fields)
next
  case (MouseOut i j)
  then show ?thesis by (simp add: update_dom_fields)
next
  case (Zoom i z)
  then show ?thesis by (simp add: Let_def update_dom_fields)
qed

lemma run_Cons: "run ex (e # evs) s = run ex evs (step ex e s)"
  by (simp add: run_def)

lemma run_cached:
  assumes "maps s c = Some m"
  shows "(\<exists>m'. maps (run ex evs s) c = Some m')
       \<and> filter (\<lambda>q. req_country q = c) (fetches (run ex evs s))
          = filter (\<lambda>q. req_country q = c) (fetches s)"
  using assms
proof (induction evs arbitrary: s m)
  case Nil
  then show ?case by (simp add: run_def)
next
  case (Cons e evs)
  from step_keeps_cache [OF Cons.prems, of ex e]
  obtain m' where m': "maps (step ex e s) c = Some m'" by blast
  from Cons.IH [OF m'] step_no_fetch [OF Cons.prems, of ex e]
  show ?case by (simp add: run_Cons)
qed

lemma render_from_cache:
  assumes "maps s (country p) = Some m"
  shows "fetches (step ex (Render el p) s) = fetches s"
    and "pending (step ex (Render el p) s) = pending s"
    and "map region_datum (regions (inst_dom (last (instances (step ex (Render el p) s))))) = features m"
    and "map fill (regions (inst_dom (last (instances (step ex (Render el p) s)))))
           = map (colorFn ex p) (features m)"
  using assms
  by (simp_all add: CountryMap_def Let_def drawMap_def highlightSelectedRegion_def
      highlight_region_def comp_def)

lemma first_load:
  "run ex (Render el p # FetchDone 0 (Loaded m) # evs) initial_system =
     run ex evs (step ex (FetchDone 0 (Loaded m)) (step ex (Render el p) initial_system))"
  by (simp only: run_Cons)

lemma first_load_state:
  "maps (step ex (FetchDone 0 (Loaded m)) (step ex (Render el p) initial_system)) (country p) = Some m"
  "filter (\<lambda>q. req_country q = country p)
     (fetches (step ex (FetchDone 0 (Loaded m)) (step ex (Render el p) initial_system)))
   = [\<lparr>req_url = countries ex (country p), req_country = country p, req_element = el,
       req_instance = 0\<rparr>]"
  by (simp_all add: CountryMap_def json_callback_def Let_def initial_system_def)

section \<open>Geometry cache\<close>

text \<open>
  Claim C6, as amended. A successful load for a country code stores the fetched geometry
  in \<open>maps\<close> under that code. Once \<open>maps\<close> has an entry for a code, no later event removes
  it and no later event issues a request for that code: every render of the code that
  starts after the load has completed draws the cached features without a request. So a
  first render whose load succeeds before anything else happens, followed by any events
  at all (renders of the same code among them), issues exactly one request for the code.
  A render of a code that has no entry in \<open>maps\<close> yet always issues a request of its own
  and leaves \<open>maps\<close> as it is.
\<close>

theorem geometry_cache:
  "(\<forall>k m. k < length (pending s) \<longrightarrow>
       maps (step ex (FetchDone k (Loaded m)) s) (req_country (pending s ! k)) = Some m)
   \<and> (\<forall>c m evs. maps s c = Some m \<longrightarrow>
        (\<exists>m'. maps (run ex evs s) c = Some m')
        \<and> filter (\<lambda>q. req_country q = c) (fetches (run ex evs s))
            = filter (\<lambda>q. req_country q = c) (fetches s))
   \<and> (\<forall>el p m. maps s (country p) = Some m \<longrightarrow>
        (let s' = step ex (Render el p) s in
           fetches s' = fetches s \<and> pending s' = pending s
         \<and> displayed s' (length (instances s))
         \<and> map region_datum (regions (inst_dom (last (instances s')))) = features m))
   \<and> (\<forall>el p m evs.
        length (filter (\<lambda>q. req_country q = country p)
          (fetches (run ex (Render el p # FetchDone 0 (Loaded m) # evs) initial_system))) = 1)
   \<and> (\<forall>el p. maps s (country p) = None \<longrightarrow>
        (let s' = step ex (Render el p) s;
             rq = \<lparr>req_url = countries ex (country p), req_country = country p,
                    req_element = el, req_instance = length (instances s)\<rparr>
         in fetches s' = fetches s @ [rq] \<and> pending s' = pending s @ [rq]
          \<and> maps s' = maps s))"
proof (intro conjI allI impI)
  fix k m
  assume "k < length (pending s)"
  then show "maps (step ex (FetchDone k (Loaded m)) s) (req_country (pending s ! k)) = Some m"
    by (simp add: json_callback_def Let_def)
next
  fix c m evs
  assume "maps s c = Some m"
  then show "\<exists>m'. maps (run ex evs s) c = Some m'"
    using run_cached [of s c m ex evs] by blast
next
  fix c m evs
  assume "maps s c = Some m"
  then show "filter (\<lambda>q. req_country q = c) (fetches (run ex evs s))
            = filter (\<lambda>q. req_country q = c) (fetches s)"
    using run_cached [of s c m ex evs] by blast
next
  fix el and p :: props and m
  assume c: "maps s (country p) = Some m"
  show "let s' = step ex (Render el p) s in
           fetches s' = fetches s \<and> pending s' = pending s
         \<and> displayed s' (length (instances s))
         \<and> map region_datum (regions (inst_dom (last (instances s')))) = features m"
    unfolding Let_def
    using render_from_cache(1-3) [OF c, of ex el] displayed_after_render [of ex el p s]
    by simp
next
  fix el p m evs
  show "length (filter (\<lambda>q. req_country q = country p)
          (fetches (run ex (Render el p # FetchDone 0 (Loaded m) # evs) initial_system))) = 1"
    unfolding first_load
    using run_cached [OF first_load_state(1) [where ex = ex and m = m and el = el and p = p], where ex = ex and evs = evs]
      first_load_state(2) [where ex = ex and m = m and el = el and p = p]
    by simp
next
  fix el and p :: props
  assume "maps s (country p) = None"
  then show "let s' = step ex (Render el p) s;
             rq = \<lparr>req_url = countries ex (country p), req_country = country p,
                    req_element = el, req_instance = length (instances s)\<rparr>
         in fetches s' = fetches s @ [rq] \<and> pending s' = pending s @ [rq]
          \<and> maps s' = maps s"
    by (simp add: CountryMap_def Let_def)
qed

theorem geometry_cache_witness:
  "maps loaded_system (country example_props) = Some example_geometry
   \<and> maps initial_system (country example_props) = None
   \<and> fetches (step example_externals (Render 0 example_props) initial_system)
       = [\<lparr>req_url = Some ''/maps/france.geojson'', req_country = ''france'',
           req_element = 0, req_instance = 0\<rparr>]
   \<and> length (filter (\<lambda>q. req_country q = country example_props)
        (fetches (run example_externals
           [Render 0 example_props, FetchDone 0 (Loaded example_geometry),
            Render 0 example_props, Render 1 example_props] initial_system))) = 1
   \<and> fetches (step example_externals (Render 1 example_props) loaded_system) = fetches loaded_system
   \<and> pending (step example_externals (Render 1 example_props) loaded_system) = []
   \<and> map region_datum (regions (inst_dom (last (instances
         (step example_externals (Render 1 example_props) loaded_system)))))
       = [region_A, region_C, no_code, no_properties]"
proof -
  note t = geometry_cache [of loaded_system example_externals, unfolded Let_def]
  have cached: "maps loaded_system (country example_props) = Some example_geometry"
    by (simp add: loaded_system_shape example_props_fields)
  have once: "length (filter (\<lambda>q. req_country q = country example_props)
        (fetches (run example_externals
           (Render 0 example_props # FetchDone 0 (Loaded example_geometry)
             # [Render 0 example_props, Render 1 example_props]) initial_system))) = 1"
    by (rule t [THEN conjunct2, THEN conjunct2, THEN conjunct2, THEN conjunct1, THEN spec,
          THEN spec, THEN spec, THEN spec])
  have again: "fetches (step example_externals (Render 1 example_props) loaded_system)
        = fetches loaded_system
      \<and> pending (step example_externals (Render 1 example_props) loaded_system)
        = pending loaded_system
      \<and> displayed (step example_externals (Render 1 example_props) loaded_system)
          (length (instances loaded_system))
      \<and> map region_datum (regions (inst_dom (last (instances
           (step example_externals (Render 1 example_props) loaded_system)))))
        = features example_geometry"
    by (rule t [THEN conjunct2, THEN conjunct2, THEN conjunct1, THEN spec, THEN spec, THEN spec,
          THEN mp, OF cached])
  note t0 = geometry_cache [of initial_system example_externals, unfolded Let_def]
  have empty: "maps initial_system (country example_props) = None"
    by (simp add: initial_system_def)
  have first: "fetches (step example_externals (Render 0 example_props) initial_system)
      = fetches initial_system
          @ [\<lparr>req_url = countries example_externals (country example_props),
               req_country = country example_props, req_element = 0,
               req_instance = length (instances initial_system)\<rparr>]"
    by (rule t0 [THEN conjunct2, THEN conjunct2, THEN conjunct2, THEN conjunct2, THEN spec,
          THEN spec, THEN mp, OF empty, THEN conjunct1])
  have url: "countries example_externals (country example_props) = Some ''/maps/france.geojson''"
    by (simp add: example_externals_def example_props_fields)
  have issued: "fetches (step example_externals (Render 0 example_props) initial_system)
       = [\<lparr>req_url = Some ''/maps/france.geojson'', req_country = ''france'',
           req_element = 0, req_instance = 0\<rparr>]"
    unfolding first url by (simp add: initial_system_def example_props_fields)
  show ?thesis
    using cached empty issued once again by (simp add: loaded_system_shape example_geometry_def)
qed

text \<open>
  The claim as stated fails when the second render starts before the load of the first
  has completed: \<open>maps\<close> is written only by the callback of the request, so both renders
  issue a request, and two requests have been issued when both loads have succeeded.
\<close>

theorem second_render_in_flight_fetches_again:
  "length (filter (\<lambda>q. req_country q = country example_props)
     (fetches (run example_externals [Render 0 example_props, Render 1 example_props]
        initial_system))) = 2
   \<and> length (filter (\<lambda>q. req_country q = country example_props)
     (fetches (run example_externals
        [Render 0 example_props, Render 1 example_props,
         FetchDone 0 (Loaded example_geometry), FetchDone 0 (Loaded example_geometry)]
        initial_system))) = 2
   \<and> maps (run example_externals
        [Render 0 example_props, Render 1 example_props,
         FetchDone 0 (Loaded example_geometry), FetchDone 0 (Loaded example_geometry)]
        initial_system) (country example_props) = Some example_geometry"
  by (simp add: run_def CountryMap_def json_callback_def Let_def initial_system_def
      example_props_fields)

lemma find_fst_map_of:
  "find (\<lambda>x. fst x = c) xs = map_option (\<lambda>n. (c, n)) (map_of xs c)"
  by (induction xs) auto

lemma countryName_cases:
  "map_of (countryOptions ex) c = Some n \<Longrightarrow> n \<noteq> [] \<Longrightarrow> countryName ex c = n"
  "map_of (countryOptions ex) c = None \<Longrightarrow> countryName ex c = c"
  by (simp_all add: countryName_def find_fst_map_of)

lemma failing_system_shape:
  "pending failing_system =
     [\<lparr>req_url = None, req_country = ''uk'', req_element = 0, req_instance = 0\<rparr>]"
  "fetches failing_system =
     [\<lparr>req_url = None, req_country = ''uk'', req_element = 0, req_instance = 0\<rparr>]"
  "calls failing_system = []"
  by (simp_all add: failing_system_def CountryMap_def Let_def initial_system_def
      example_externals_def)

section \<open>Load failure\<close>

text \<open>
  Claim C8. When the request of a render fails, the content of its container becomes the
  error panel, whose text names the country by the display name that \<open>countryOptions\<close> has
  for the code, and by the raw code when \<open>countryOptions\<close> has no entry for it. No request
  is issued (the failed one is not retried), no call is made to the host, and the cache is
  unchanged.
\<close>

theorem load_failure_panel:
  assumes inflight: "k < length (pending s)"
  shows \<open>let rq = pending s ! k; c = req_country rq; s' = step ex (FetchDone k Failed) s in
      (\<forall>n. map_of (countryOptions ex) c = Some n \<and> n \<noteq> [] \<longrightarrow>
         containers s' (req_element rq) =
           Html (''<div class="alert alert-danger">Could not load map data for '' @ n @ ''</div>''))
    \<and> (map_of (countryOptions ex) c = None \<longrightarrow>
         containers s' (req_element rq) =
           Html (''<div class="alert alert-danger">Could not load map data for '' @ c @ ''</div>''))
    \<and> fetches s' = fetches s
    \<and> pending s' = take k (pending s) @ drop (Suc k) (pending s)
    \<and> calls s' = calls s
    \<and> maps s' = maps s
    \<and> instances s' = instances s\<close>
  unfolding Let_def
proof (intro conjI allI impI)
  fix n
  assume "map_of (countryOptions ex) (req_country (pending s ! k)) = Some n \<and> n \<noteq> []"
  then show \<open>containers (step ex (FetchDone k Failed) s) (req_element (pending s ! k)) =
      Html (''<div class="alert alert-danger">Could not load map data for '' @ n @ ''</div>'')\<close>
    using inflight by (simp add: json_callback_def countryName_cases)
next
  assume "map_of (countryOptions ex) (req_country (pending s ! k)) = None"
  then show \<open>containers (step ex (FetchDone k Failed) s) (req_element (pending s ! k)) =
      Html (''<div class="alert alert-danger">Could not load map data for ''
             @ req_country (pending s ! k) @ ''</div>'')\<close>
    using inflight by (simp add: json_callback_def countryName_cases)
qed (use inflight in \<open>simp_all add: json_callback_def\<close>)

theorem load_failure_panel_witness:
  \<open>(0::nat) < length (pending failing_system)
   \<and> containers (step example_externals (FetchDone 0 Failed) failing_system) 0
       = Html ''<div class="alert alert-danger">Could not load map data for UK</div>''
   \<and> fetches (step example_externals (FetchDone 0 Failed) failing_system) = fetches failing_system
   \<and> pending (step example_externals (FetchDone 0 Failed) failing_system) = []
   \<and> calls (step example_externals (FetchDone 0 Failed) failing_system) = []\<close>
proof -
  have h: "(0::nat) < length (pending failing_system)"
    by (simp add: failing_system_shape)
  note t = load_failure_panel [OF h, of example_externals, unfolded Let_def]
  have named: "map_of (countryOptions example_externals) (req_country (pending failing_system ! 0))
      = Some ''UK'' \<and> ''UK'' \<noteq> []"
    by (simp add: failing_system_shape example_externals_def)
  have panel: \<open>containers (step example_externals (FetchDone 0 Failed) failing_system)
        (req_element (pending failing_system ! 0))
      = Html (''<div class="alert alert-danger">Could not load map data for '' @ ''UK'' @ ''</div>'')\<close>
    by (rule t [THEN conjunct1, THEN spec, THEN mp, OF named])
  have rest: "fetches (step example_externals (FetchDone 0 Failed) failing_system) = fetches failing_system
      \<and> pending (step example_externals (FetchDone 0 Failed) failing_system)
          = take 0 (pending failing_system) @ drop (Suc 0) (pending failing_system)
      \<and> calls (step example_externals (FetchDone 0 Failed) failing_system) = calls failing_system"
    using t by blast
  have el: "req_element (pending failing_system ! 0) = 0"
    by (simp add: failing_system_shape)
  show ?thesis
    using h panel rest unfolding el by (simp add: failing_system_shape)
qed

end
